theory Spec2Isabelle
  imports Main
begin

section \<open>Data model\<close>

text \<open>
  The store is a PostgreSQL database reached through \<^verbatim>\<open>db.js\<close>. A table is a map
  from its primary key to the remaining columns of the row; a nullable column is an
  \<open>option\<close>, with \<open>None\<close> for SQL NULL (and for JavaScript \<^verbatim>\<open>null\<close> once the row
  has been read).
\<close>

datatype author = User | Staff | System

text \<open>
  The fixed texts of the program (results, notices, log lines) are written in
  Portuguese; each is one template, and a phrase is a template with the values
  interpolated into it. Text typed by a person is \<open>Plain\<close>.
\<close>

datatype template =
    PaymentChannelNotFound | UserIdNotInTopic | PaymentApproved | SiteOrderApproved
  | PaymentRejected | SiteOrderRejected | TicketDelivered | SiteOrderNotFound
  | SiteOrderDelivered | UnknownAction
  | LinkInvalidOrExpired | AccessDenied | ProductNotFound | OrderCreateFailed
  | AuditPaymentConfirmed | AuditPanelUpdated | AuditSiteApproved | AuditPaymentRejected
  | AuditSiteRejected | AuditDeliveryConfirmed | AuditSiteDelivered | AuditProofNotified
  | AuditDeliveryNotified
  | PostDeliveryReady | PostChatWelcome | PostProofRejected | PostDeliveryConfirmed
  | PostSiteRelay
  | NoticeProofReview | NoticeDeliveryLink | NoticePurchaseCompleted | NoticeOrderDelivered
  | DeliveredSystemNote

datatype phrase = Plain string | Tpl template "string list"

record message =
  author :: author
  content :: phrase
  timestamp :: string

record product =
  name :: string
  price :: int
  description :: "string option"
  emoji :: "string option"
  stock :: int

record order =
  userId :: "string option"
  productId :: "string option"
  productName :: "string option"
  status :: "string option"
  createdAt :: "string option"
  receiptUrl :: "string option"
  ticketChannelId :: "string option"
  messages :: "message list option"

text \<open>
  The context of a verification token. Tokens are minted in four places only
  (the upload route, the attachment handler, \<^verbatim>\<open>processPaymentConfirmation\<close> and
  the site branch of \<^verbatim>\<open>approve\<close>), each with \<^verbatim>\<open>type\<close> \<^verbatim>\<open>'ticket'\<close> or \<^verbatim>\<open>'site'\<close>:
  a ticket context carries \<^verbatim>\<open>channelId\<close>, \<^verbatim>\<open>userId\<close>, \<^verbatim>\<open>productId\<close> and perhaps
  \<^verbatim>\<open>productName\<close>; a site context carries \<^verbatim>\<open>orderId\<close>, \<^verbatim>\<open>userId\<close> and perhaps
  \<^verbatim>\<open>productId\<close> and \<^verbatim>\<open>productName\<close>.
\<close>

datatype token_context =
    TicketCtx string string string "string option"
  | SiteCtx string string "string option" "string option"

datatype details =
    ProofDetails "(string \<times> string) list"
  | DeliveryDetails "string option"

record token =
  action :: "string option"
  tk_context :: token_context
  details :: details

record channel =
  ch_name :: string
  ch_topic :: "string option"
  ch_text_based :: bool
  ch_message_ids :: "string list"
  ch_posts :: "phrase list"
  ch_viewers :: "string list"

record discord_user =
  tag :: string
  username :: string
  accepts_dm :: bool

record panel_config =
  panelMessageId :: "string option"
  panelChannelId :: "string option"

text \<open>What a \<^verbatim>\<open>setTimeout\<close> callback of the program does when it runs.\<close>

datatype timer_action =
    DeleteToken string
  | DeleteChannel string
  | DeleteFromFetchedCollection

record timer =
  due :: nat
  act :: timer_action

text \<open>A socket.io emit: the room, the socket left out (if any), the message.\<close>

record emit =
  room :: string
  except :: "string option"
  payload :: message

datatype js_error =
    TypeError string
  | ReferenceError string
  | DiscordAPIError nat
  | DatabaseError string

datatype log_line =
    ErrPaymentChannel string
  | ErrUserIdInTopic string
  | ErrRelay string js_error
  | ErrOrderCreate js_error
  | ErrProofNotice js_error
  | ErrDeliveryNotice js_error
  | ErrDirectMessage js_error
  | ErrPanelUpdate js_error
  | ErrAuditLog js_error
  | LogPanelGone

text \<open>
  The state the program reads and writes: the tables of the database, the
  process-local token map of the web server, the part of the messaging platform
  the program talks to, the pending timers with the clock (milliseconds), and
  what has been sent out.
\<close>

record world =
  products :: "string \<rightharpoonup> product"
  accounts :: "string set"
  orders :: "string \<rightharpoonup> order"
  audit_logs :: "phrase list"
  fixed_panel :: "panel_config option"
  verificationTokens :: "string \<rightharpoonup> token"
  guild_reachable :: bool
  channels :: "string \<rightharpoonup> channel"
  users :: "string \<rightharpoonup> discord_user"
  OWNER_ID :: string
  ADMIN_ROLE_ID :: string
  SITE_URL :: string
  clock :: nat
  timers :: "timer list"
  emits :: "emit list"
  direct_messages :: "(string \<times> phrase) list"
  panel_edits :: "(string \<times> string) list"
  console :: "log_line list"

text \<open>
  What the outside supplies to one handler run: the hex string of
  \<^verbatim>\<open>crypto.randomBytes(16)\<close>, \<^verbatim>\<open>new Date().toISOString()\<close>, \<^verbatim>\<open>Date.now()\<close> as
  text, and the id the platform gives a channel created during the run
  (\<open>None\<close>: the platform refuses the creation).
\<close>

record env =
  random_hex :: string
  now_iso :: string
  now_millis :: string
  new_channel_id :: "string option"

section \<open>Asynchronous code as state passing\<close>

text \<open>
  An \<^verbatim>\<open>async\<close> function takes the world and gives back the new world together with
  its value (\<open>Inr\<close>) or the error it threw (\<open>Inl\<close>). A throw keeps the effects that
  happened before it.
\<close>

type_synonym 'a io = "world \<Rightarrow> (js_error + 'a) \<times> world"

definition returns :: "'a \<Rightarrow> 'a io" where
  "returns x = (\<lambda>w. (Inr x, w))"

definition throw :: "js_error \<Rightarrow> 'a io" where
  "throw e = (\<lambda>w. (Inl e, w))"

definition bind :: "'a io \<Rightarrow> ('a \<Rightarrow> 'b io) \<Rightarrow> 'b io" where
  "bind m f = (\<lambda>w. case m w of (Inl e, w') \<Rightarrow> (Inl e, w') | (Inr x, w') \<Rightarrow> f x w')"

definition try_catch :: "'a io \<Rightarrow> (js_error \<Rightarrow> 'a io) \<Rightarrow> 'a io" where
  "try_catch m h = (\<lambda>w. case m w of (Inl e, w') \<Rightarrow> h e w' | (Inr x, w') \<Rightarrow> (Inr x, w'))"

definition modify :: "(world \<Rightarrow> world) \<Rightarrow> unit io" where
  "modify f = (\<lambda>w. (Inr (), f w))"

text \<open>JavaScript truthiness of a string-or-null value: null and the empty string are falsy.\<close>

definition truthy :: "string option \<Rightarrow> bool" where
  "truthy v = (case v of None \<Rightarrow> False | Some s \<Rightarrow> s \<noteq> [])"

text \<open>\<^verbatim>\<open>a || b\<close> on string-or-null values.\<close>

definition js_or :: "string option \<Rightarrow> string option \<Rightarrow> string option" where
  "js_or a b = (if truthy a then a else b)"

section \<open>db.js\<close>

text \<open>
  The database is taken to be reachable: a statement fails only where the schema
  refuses it (a value that does not fit its column, a key constraint). A
  parameter that is compared with a key and matches no row selects nothing.
\<close>

text \<open>\<^verbatim>\<open>UPDATE t SET ... WHERE id = $1 AND cond\<close>: at most the row of that key changes.\<close>

definition update_where_id :: "('k \<rightharpoonup> 'r) \<Rightarrow> 'k \<Rightarrow> ('r \<Rightarrow> bool) \<Rightarrow> ('r \<Rightarrow> 'r) \<Rightarrow> ('k \<rightharpoonup> 'r)" where
  "update_where_id tbl k cond f =
     (case tbl k of
        None \<Rightarrow> tbl
      | Some r \<Rightarrow> if cond r then tbl(k \<mapsto> f r) else tbl)"

definition getProductById :: "string \<Rightarrow> product option io" where
  "getProductById pid = (\<lambda>w. (Inr (products w pid), w))"

text \<open>
  \<^verbatim>\<open>UPDATE products SET stock = stock - 1 WHERE id = $1 AND stock > 0\<close>.
  The column is a 32-bit INTEGER; under the guard \<open>stock - 1\<close> cannot leave its range.
\<close>

definition decreaseProductStock :: "string \<Rightarrow> unit io" where
  "decreaseProductStock pid =
     modify (\<lambda>w. w\<lparr>products :=
       update_where_id (products w) pid (\<lambda>p. stock p > 0) (\<lambda>p. p\<lparr>stock := stock p - 1\<rparr>)\<rparr>)"

text \<open>
  What a column keeps of a text written to it. No text of the database holds the
  character U+0000 (error 22021). A \<^verbatim>\<open>VARCHAR(n)\<close> column takes a text of at most \<open>n\<close>
  characters; a longer one is cut to \<open>n\<close> when all that is cut off is spaces, and
  refused otherwise (error 22001). A string of the model is the list of its
  characters.
\<close>

definition text_ok :: "string \<Rightarrow> bool" where
  "text_ok s = (CHR 0x00 \<notin> set s)"

definition text_value :: "string \<Rightarrow> js_error + string" where
  "text_value s = (if text_ok s then Inr s else Inl (DatabaseError ''22021''))"

definition varchar :: "nat \<Rightarrow> string \<Rightarrow> js_error + string" where
  "varchar n s =
     (if \<not> text_ok s then Inl (DatabaseError ''22021'')
      else if length s \<le> n then Inr s
      else if set (drop n s) \<subseteq> {CHR 0x20} then Inr (take n s)
      else Inl (DatabaseError ''22001''))"

text \<open>
  A parameter cast to \<^verbatim>\<open>jsonb\<close> is the JSON text of a message. \<^verbatim>\<open>JSON.stringify\<close> writes
  U+0000 as the escape \<^verbatim>\<open>\u0000\<close>, which \<^verbatim>\<open>jsonb\<close> refuses (error 22P05). The author is
  one of three fixed words and the timestamp is the output of \<^verbatim>\<open>toISOString\<close>; the
  content is the part of a message that can hold the character.
\<close>

fun phrase_ok :: "phrase \<Rightarrow> bool" where
  "phrase_ok (Plain s) = text_ok s"
| "phrase_ok (Tpl t args) = list_all text_ok args"

definition jsonb_accepts :: "message \<Rightarrow> bool" where
  "jsonb_accepts m = phrase_ok (content m)"

definition stored :: "js_error + 'a \<Rightarrow> 'a io" where
  "stored v = (case v of Inl err \<Rightarrow> throw err | Inr x \<Rightarrow> returns x)"

text \<open>
  \<^verbatim>\<open>INSERT INTO orders (id, "userId", "productId", "productName", status, "createdAt", messages)\<close>.
  The values must fit their columns (\<^verbatim>\<open>VARCHAR(255)\<close>, for the status \<^verbatim>\<open>VARCHAR(50)\<close>,
  \<^verbatim>\<open>JSONB\<close>); the primary key and the two foreign keys are checked by the database;
  the columns not listed are NULL; \<^verbatim>\<open>messages\<close> is \<^verbatim>\<open>'[]'\<close> when the caller gives
  none. \<^verbatim>\<open>createdAt\<close> is always the output of \<^verbatim>\<open>toISOString\<close>, a timestamp the
  database reads.
\<close>

record orderData =
  od_id :: string
  od_userId :: string
  od_productId :: string
  od_productName :: string
  od_status :: string
  od_createdAt :: string
  od_messages :: "message list option"

definition createOrder :: "orderData \<Rightarrow> order io" where
  "createOrder od =
     bind (stored (varchar 255 (od_id od))) (\<lambda>id_value.
     bind (stored (varchar 255 (od_userId od))) (\<lambda>userId_value.
     bind (stored (varchar 255 (od_productId od))) (\<lambda>productId_value.
     bind (stored (varchar 255 (od_productName od))) (\<lambda>productName_value.
     bind (stored (varchar 50 (od_status od))) (\<lambda>status_value.
     bind (stored (text_value (od_createdAt od))) (\<lambda>createdAt_value.
     bind (stored (case od_messages od of
                     None \<Rightarrow> Inr []
                   | Some ms \<Rightarrow> if list_all jsonb_accepts ms then Inr ms
                               else Inl (DatabaseError ''22P05''))) (\<lambda>messages_value.
     (\<lambda>w.
        if id_value \<in> dom (orders w) then (Inl (DatabaseError ''orders_pkey''), w)
        else if userId_value \<notin> accounts w then (Inl (DatabaseError ''orders_userId_fkey''), w)
        else if productId_value \<notin> dom (products w)
          then (Inl (DatabaseError ''orders_productId_fkey''), w)
        else
          let row = \<lparr>userId = Some userId_value, productId = Some productId_value,
                     productName = Some productName_value, status = Some status_value,
                     createdAt = Some createdAt_value, receiptUrl = None, ticketChannelId = None,
                     messages = Some messages_value\<rparr>
          in (Inr row, w\<lparr>orders := (orders w)(id_value \<mapsto> row)\<rparr>)))))))))"

text \<open>\<^verbatim>\<open>SELECT * FROM orders WHERE id = $1 AND "userId" = $2\<close>; a NULL \<^verbatim>\<open>userId\<close> equals nothing.\<close>

definition getOrderById :: "string \<Rightarrow> string \<Rightarrow> order option io" where
  "getOrderById oid uid = (\<lambda>w.
     (Inr (case orders w oid of
             None \<Rightarrow> None
           | Some r \<Rightarrow> if userId r = Some uid then Some r else None), w))"

record extraData =
  ex_receiptUrl :: "string option"
  ex_ticketChannelId :: "string option"

definition no_extraData :: extraData where
  "no_extraData = \<lparr>ex_receiptUrl = None, ex_ticketChannelId = None\<rparr>"

datatype column = Status | ReceiptUrl | TicketChannelId

text \<open>The \<^verbatim>\<open>SET\<close> list that \<^verbatim>\<open>updateOrderStatus\<close> builds: columns with their parameters.\<close>

definition set_clause :: "string \<Rightarrow> extraData \<Rightarrow> (column \<times> string) list" where
  "set_clause st extra =
     [(Status, st)]
     @ (case ex_receiptUrl extra of
          Some u \<Rightarrow> if truthy (Some u) then [(ReceiptUrl, u)] else []
        | None \<Rightarrow> [])
     @ (case ex_ticketChannelId extra of
          Some c \<Rightarrow> if truthy (Some c) then [(TicketChannelId, c)] else []
        | None \<Rightarrow> [])"

fun assign :: "column \<times> string \<Rightarrow> order \<Rightarrow> order" where
  "assign (Status, v) r = r\<lparr>status := Some v\<rparr>"
| "assign (ReceiptUrl, v) r = r\<lparr>receiptUrl := Some v\<rparr>"
| "assign (TicketChannelId, v) r = r\<lparr>ticketChannelId := Some v\<rparr>"

text \<open>
  The columns as \<^verbatim>\<open>createTables\<close> declares them: \<^verbatim>\<open>status VARCHAR(50)\<close>,
  \<^verbatim>\<open>"receiptUrl" TEXT\<close>, \<^verbatim>\<open>"ticketChannelId" VARCHAR(255)\<close>. A statement with a value
  that its column refuses fails as a whole and writes nothing.
\<close>

fun column_value :: "column \<times> string \<Rightarrow> js_error + column \<times> string" where
  "column_value (Status, v) = map_sum id (Pair Status) (varchar 50 v)"
| "column_value (ReceiptUrl, v) = map_sum id (Pair ReceiptUrl) (text_value v)"
| "column_value (TicketChannelId, v) = map_sum id (Pair TicketChannelId) (varchar 255 v)"

fun column_values :: "(column \<times> string) list \<Rightarrow> js_error + (column \<times> string) list" where
  "column_values [] = Inr []"
| "column_values (a # rest) =
     (case column_value a of
        Inl err \<Rightarrow> Inl err
      | Inr a' \<Rightarrow> map_sum id ((#) a') (column_values rest))"

definition updateOrderStatus :: "string \<Rightarrow> string \<Rightarrow> extraData \<Rightarrow> order option io" where
  "updateOrderStatus oid st extra =
     bind (stored (column_values (set_clause st extra))) (\<lambda>assignments.
     (\<lambda>w.
        let tbl = update_where_id (orders w) oid (\<lambda>_. True) (\<lambda>r. fold assign assignments r)
        in (Inr (case orders w oid of None \<Rightarrow> None | Some _ \<Rightarrow> tbl oid), w\<lparr>orders := tbl\<rparr>)))"

text \<open>
  \<^verbatim>\<open>messages || $2::jsonb\<close> with a JSON object on the right: an array gains the object
  as its last element; the operator is strict, so NULL stays NULL. The cast of
  the parameter comes first: a message that \<^verbatim>\<open>jsonb\<close> refuses fails the statement.
\<close>

definition jsonb_concat :: "message list option \<Rightarrow> message \<Rightarrow> message list option" where
  "jsonb_concat ms m = (case ms of None \<Rightarrow> None | Some xs \<Rightarrow> Some (xs @ [m]))"

definition addMessageToOrder :: "string \<Rightarrow> message \<Rightarrow> unit io" where
  "addMessageToOrder oid m =
     (if jsonb_accepts m
      then modify (\<lambda>w. w\<lparr>orders :=
             update_where_id (orders w) oid (\<lambda>_. True)
               (\<lambda>r. r\<lparr>messages := jsonb_concat (messages r) m\<rparr>)\<rparr>)
      else throw (DatabaseError ''22P05''))"

text \<open>\<^verbatim>\<open>INSERT INTO audit_logs (message)\<close>; a failure is caught and printed.\<close>

definition addAuditLog :: "phrase \<Rightarrow> unit io" where
  "addAuditLog line =
     (if phrase_ok line
      then modify (\<lambda>w. w\<lparr>audit_logs := audit_logs w @ [line]\<rparr>)
      else modify (\<lambda>w. w\<lparr>console := console w @ [ErrAuditLog (DatabaseError ''22021'')]\<rparr>))"

definition getConfig_fixed_panel :: "panel_config option io" where
  "getConfig_fixed_panel = (\<lambda>w. (Inr (fixed_panel w), w))"

definition setConfig_fixed_panel :: "panel_config \<Rightarrow> unit io" where
  "setConfig_fixed_panel v = modify (\<lambda>w. w\<lparr>fixed_panel := Some v\<rparr>)"

section \<open>The messaging platform, the web sockets, timers and the console\<close>

text \<open>
  A call of the platform's API succeeds or throws according to the state of the
  platform: a channel, a message or a user can be fetched when it exists, a
  direct message can be sent when the user accepts them. The number in
  \<open>DiscordAPIError\<close> is the platform's error code.
\<close>

definition client_guilds_fetch :: "unit io" where
  "client_guilds_fetch =
     (\<lambda>w. if guild_reachable w then (Inr (), w) else (Inl (DiscordAPIError 10004), w))"

text \<open>\<^verbatim>\<open>client.channels.fetch(id)\<close> with a truthy id.\<close>

definition client_channels_fetch :: "string \<Rightarrow> channel io" where
  "client_channels_fetch cid =
     (\<lambda>w. case channels w cid of
            None \<Rightarrow> (Inl (DiscordAPIError 10003), w)
          | Some ch \<Rightarrow> (Inr ch, w))"

text \<open>
  \<^verbatim>\<open>guild.channels.fetch(id)\<close>: with a truthy id the channel of that id; with a
  falsy one (null, the empty string) the library fetches every channel of the
  guild and returns them as a collection.
\<close>

datatype fetched = OneChannel string channel | AllChannels

definition guild_channels_fetch :: "string option \<Rightarrow> fetched io" where
  "guild_channels_fetch cid =
     (if truthy cid
      then bind (client_channels_fetch (the cid)) (\<lambda>ch. returns (OneChannel (the cid) ch))
      else returns AllChannels)"

text \<open>\<^verbatim>\<open>promise.catch(() => null)\<close>.\<close>

definition catch_null :: "'a io \<Rightarrow> 'a option io" where
  "catch_null m = try_catch (bind m (\<lambda>x. returns (Some x))) (\<lambda>_. returns None)"

definition fetched_name :: "fetched option \<Rightarrow> string option" where
  "fetched_name f = (case f of Some (OneChannel _ ch) \<Rightarrow> Some (ch_name ch) | _ \<Rightarrow> None)"

text \<open>\<^verbatim>\<open>v || 'default'\<close>.\<close>

definition or_default :: "string option \<Rightarrow> string \<Rightarrow> string" where
  "or_default v d = (if truthy v then the v else d)"

definition channel_send :: "string \<Rightarrow> phrase \<Rightarrow> unit io" where
  "channel_send cid p =
     (\<lambda>w. case channels w cid of
            None \<Rightarrow> (Inl (DiscordAPIError 10003), w)
          | Some ch \<Rightarrow>
              if ch_text_based ch
              then (Inr (), w\<lparr>channels := (channels w)(cid \<mapsto> ch\<lparr>ch_posts := ch_posts ch @ [p]\<rparr>)\<rparr>)
              else (Inl (TypeError ''send is not a function''), w))"

definition channel_delete :: "string \<Rightarrow> unit io" where
  "channel_delete cid =
     (\<lambda>w. case channels w cid of
            None \<Rightarrow> (Inl (DiscordAPIError 10003), w)
          | Some _ \<Rightarrow> (Inr (), w\<lparr>channels := (channels w)(cid := None)\<rparr>))"

text \<open>
  \<^verbatim>\<open>guild.channels.create({name, type: GuildText, topic, permissionOverwrites})\<close>: a
  text channel hidden from the guild and visible to the ids listed.
\<close>

definition guild_channels_create :: "env \<Rightarrow> string \<Rightarrow> string \<Rightarrow> string list \<Rightarrow> string io" where
  "guild_channels_create e nm topic viewers =
     (\<lambda>w. case new_channel_id e of
            None \<Rightarrow> (Inl (DiscordAPIError 50013), w)
          | Some cid \<Rightarrow>
              (Inr cid, w\<lparr>channels := (channels w)(cid \<mapsto>
                 \<lparr>ch_name = nm, ch_topic = Some topic, ch_text_based = True,
                  ch_message_ids = [], ch_posts = [], ch_viewers = viewers\<rparr>)\<rparr>))"

definition client_users_fetch :: "string \<Rightarrow> discord_user io" where
  "client_users_fetch uid =
     (\<lambda>w. case users w uid of
            None \<Rightarrow> (Inl (DiscordAPIError 10013), w)
          | Some u \<Rightarrow> (Inr u, w))"

definition user_send :: "string \<Rightarrow> phrase \<Rightarrow> unit io" where
  "user_send uid p =
     (\<lambda>w. case users w uid of
            None \<Rightarrow> (Inl (DiscordAPIError 10013), w)
          | Some u \<Rightarrow>
              if accepts_dm u
              then (Inr (), w\<lparr>direct_messages := direct_messages w @ [(uid, p)]\<rparr>)
              else (Inl (DiscordAPIError 50007), w))"

text \<open>\<^verbatim>\<open>channel.messages.fetch(id)\<close> and \<^verbatim>\<open>message.edit(panel)\<close> for the fixed shopping panel.\<close>

definition messages_fetch :: "channel \<Rightarrow> string \<Rightarrow> unit io" where
  "messages_fetch ch mid =
     (if mid \<in> set (ch_message_ids ch) then returns () else throw (DiscordAPIError 10008))"

definition message_edit_panel :: "string \<Rightarrow> string \<Rightarrow> unit io" where
  "message_edit_panel cid mid = modify (\<lambda>w. w\<lparr>panel_edits := panel_edits w @ [(cid, mid)]\<rparr>)"

text \<open>\<^verbatim>\<open>setTimeout(callback, ms)\<close>: the callback is pending until the clock has reached its time.\<close>

definition setTimeout :: "timer_action \<Rightarrow> nat \<Rightarrow> unit io" where
  "setTimeout a ms = modify (\<lambda>w. w\<lparr>timers := timers w @ [\<lparr>due = clock w + ms, act = a\<rparr>]\<rparr>)"

text \<open>\<^verbatim>\<open>io.to(room).emit(...)\<close> and \<^verbatim>\<open>socket.to(room).emit(...)\<close>.\<close>

definition io_to_emit :: "string \<Rightarrow> message \<Rightarrow> unit io" where
  "io_to_emit r m = modify (\<lambda>w. w\<lparr>emits := emits w @ [\<lparr>room = r, except = None, payload = m\<rparr>]\<rparr>)"

definition socket_to_emit :: "string \<Rightarrow> string \<Rightarrow> message \<Rightarrow> unit io" where
  "socket_to_emit socket r m =
     modify (\<lambda>w. w\<lparr>emits := emits w @ [\<lparr>room = r, except = Some socket, payload = m\<rparr>]\<rparr>)"

definition console_error :: "log_line \<Rightarrow> unit io" where
  "console_error l = modify (\<lambda>w. w\<lparr>console := console w @ [l]\<rparr>)"

text \<open>Time passing, and a pending timer running once it is due.\<close>

definition tick :: "nat \<Rightarrow> world \<Rightarrow> world" where
  "tick ms w = w\<lparr>clock := clock w + ms\<rparr>"

fun run_timer_action :: "timer_action \<Rightarrow> world \<Rightarrow> world" where
  "run_timer_action (DeleteToken vid) w = w\<lparr>verificationTokens := (verificationTokens w)(vid := None)\<rparr>"
| "run_timer_action (DeleteChannel cid) w = snd (channel_delete cid w)"
| "run_timer_action DeleteFromFetchedCollection w = w"

definition fire :: "nat \<Rightarrow> world \<Rightarrow> world option" where
  "fire i w =
     (if i < length (timers w) \<and> due (timers w ! i) \<le> clock w
      then Some (run_timer_action (act (timers w ! i))
                   (w\<lparr>timers := take i (timers w) @ drop (Suc i) (timers w)\<rparr>))
      else None)"

section \<open>index.js\<close>

record result =
  success :: bool
  message :: phrase

text \<open>\<^verbatim>\<open>logAuditEvent\<close> prints the line and stores it with \<^verbatim>\<open>addAuditLog\<close>.\<close>

definition logAuditEvent :: "phrase \<Rightarrow> unit io" where
  "logAuditEvent line = addAuditLog line"

definition verification_url :: "world \<Rightarrow> string \<Rightarrow> string" where
  "verification_url w vid = SITE_URL w @ ''/verify/'' @ vid"

text \<open>
  \<^verbatim>\<open>sendProofForVerification\<close> and \<^verbatim>\<open>sendDeliveryNotification\<close>: the token is stored
  under a random id and its deletion is scheduled one hour later; then the owner
  is told. Whatever is thrown on the way is caught and printed. The stored token
  is what the caller gave (details and context), with the action \<^verbatim>\<open>'deliver'\<close> for a
  delivery; it has no other field.
\<close>

definition sendProofForVerification :: "env \<Rightarrow> details \<Rightarrow> token_context \<Rightarrow> unit io" where
  "sendProofForVerification e d ctx =
     try_catch
       (bind (modify (\<lambda>w. w\<lparr>verificationTokens := (verificationTokens w)(random_hex e \<mapsto>
                \<lparr>action = None, tk_context = ctx, details = d\<rparr>)\<rparr>)) (\<lambda>_.
        bind (setTimeout (DeleteToken (random_hex e)) 3600000) (\<lambda>_.
        bind (\<lambda>w. client_users_fetch (OWNER_ID w) w) (\<lambda>owner.
        bind (\<lambda>w. user_send (OWNER_ID w)
                (Tpl NoticeProofReview [verification_url w (random_hex e)]) w) (\<lambda>_.
        logAuditEvent (Tpl AuditProofNotified []))))))
       (\<lambda>err. console_error (ErrProofNotice err))"

fun context_productName :: "token_context \<Rightarrow> string option" where
  "context_productName (TicketCtx channelId uid pid pn) = pn"
| "context_productName (SiteCtx oid uid pid pn) = pn"

text \<open>
  A value interpolated into a template string; \<^verbatim>\<open>undefined\<close> and \<^verbatim>\<open>null\<close> print
  as these words.
\<close>

definition interpolated :: "string \<Rightarrow> string option \<Rightarrow> string" where
  "interpolated absent v = (case v of None \<Rightarrow> absent | Some s \<Rightarrow> s)"

definition sendDeliveryNotification :: "env \<Rightarrow> token_context \<Rightarrow> unit io" where
  "sendDeliveryNotification e ctx =
     try_catch
       (bind (modify (\<lambda>w. w\<lparr>verificationTokens := (verificationTokens w)(random_hex e \<mapsto>
                \<lparr>action = Some ''deliver'', tk_context = ctx,
                 details = DeliveryDetails (context_productName ctx)\<rparr>)\<rparr>)) (\<lambda>_.
        bind (setTimeout (DeleteToken (random_hex e)) 3600000) (\<lambda>_.
        bind (\<lambda>w. client_users_fetch (OWNER_ID w) w) (\<lambda>owner.
        bind (\<lambda>w. user_send (OWNER_ID w)
                (Tpl NoticeDeliveryLink [verification_url w (random_hex e),
                   interpolated ''undefined'' (context_productName ctx)]) w) (\<lambda>_.
        logAuditEvent (Tpl AuditDeliveryNotified []))))))
       (\<lambda>err. console_error (ErrDeliveryNotice err))"

text \<open>
  \<^verbatim>\<open>updateFixedShoppingPanel\<close>. The panel drawn from the products in stock is display
  only; the edit is recorded by the channel and the message it rewrites.
\<close>

definition updateFixedShoppingPanel :: "unit io" where
  "updateFixedShoppingPanel =
     bind getConfig_fixed_panel (\<lambda>panelConfig.
       case panelConfig of
         None \<Rightarrow> throw (TypeError ''Cannot read properties of null (reading panelMessageId)'')
       | Some cfg \<Rightarrow>
           if truthy (panelMessageId cfg) \<and> truthy (panelChannelId cfg)
           then
             try_catch
               (bind (client_channels_fetch (the (panelChannelId cfg))) (\<lambda>channel.
                  if ch_text_based channel
                  then
                    bind (messages_fetch channel (the (panelMessageId cfg))) (\<lambda>_.
                    bind (message_edit_panel (the (panelChannelId cfg)) (the (panelMessageId cfg))) (\<lambda>_.
                    logAuditEvent (Tpl AuditPanelUpdated [ch_name channel])))
                  else returns ()))
               (\<lambda>err.
                  if err = DiscordAPIError 10008 \<or> err = DiscordAPIError 10003
                  then bind (console_error LogPanelGone) (\<lambda>_.
                       setConfig_fixed_panel \<lparr>panelMessageId = None, panelChannelId = None\<rparr>)
                  else console_error (ErrPanelUpdate err))
           else returns ())"

text \<open>\<^verbatim>\<open>topic.match(/User: (\d+)/)\<close>: the digits after the leftmost \<^verbatim>\<open>User: \<close> that has some.\<close>

definition is_digit :: "char \<Rightarrow> bool" where
  "is_digit c = (c \<in> set ''0123456789'')"

fun match_User :: "string \<Rightarrow> string option" where
  "match_User [] = None"
| "match_User (c # cs) =
     (if take 6 (c # cs) = ''User: '' \<and> takeWhile is_digit (drop 6 (c # cs)) \<noteq> []
      then Some (takeWhile is_digit (drop 6 (c # cs)))
      else match_User cs)"

definition product_name_or :: "product option \<Rightarrow> string \<Rightarrow> string" where
  "product_name_or p d = or_default (map_option name p) d"

definition processPaymentConfirmation :: "env \<Rightarrow> string \<Rightarrow> string \<Rightarrow> discord_user \<Rightarrow> result io" where
  "processPaymentConfirmation e channelId pid adminUser =
     bind (catch_null (guild_channels_fetch (Some channelId))) (\<lambda>paymentChannel.
       case paymentChannel of
         Some (OneChannel pcid pch) \<Rightarrow>
           if truthy (ch_topic pch)
           then
             (case match_User (the (ch_topic pch)) of
                None \<Rightarrow>
                  bind (console_error (ErrUserIdInTopic channelId)) (\<lambda>_.
                  returns \<lparr>success = False, message = Tpl UserIdNotInTopic []\<rparr>)
              | Some uid \<Rightarrow>
                  bind (client_users_fetch uid) (\<lambda>user.
                  bind (getProductById pid) (\<lambda>product.
                  bind (case product of
                          None \<Rightarrow> returns ()
                        | Some p \<Rightarrow> if stock p \<noteq> - 1 then decreaseProductStock pid else returns ()) (\<lambda>_.
                  bind (logAuditEvent (Tpl AuditPaymentConfirmed
                          [tag adminUser, tag user, product_name_or product ''desconhecido'', pid])) (\<lambda>_.
                  bind (channel_delete pcid) (\<lambda>_.
                  bind updateFixedShoppingPanel (\<lambda>_.
                  bind (\<lambda>w. guild_channels_create e (''entrega-'' @ take 20 (username user))
                          (''Canal de entrega para '' @ tag user @ '' (ID: '' @ uid @ '') | Produto: '' @ pid)
                          [uid, ADMIN_ROLE_ID w] w) (\<lambda>deliveryChannel.
                  bind (channel_send deliveryChannel (Tpl PostDeliveryReady
                          [uid, product_name_or product ''desconhecido''])) (\<lambda>_.
                  bind (sendDeliveryNotification e (TicketCtx deliveryChannel uid pid
                          (Some (product_name_or product ''Desconhecido'')))) (\<lambda>_.
                  returns \<lparr>success = True, message = Tpl PaymentApproved [tag user]\<rparr>))))))))))
           else
             bind (console_error (ErrPaymentChannel channelId)) (\<lambda>_.
             returns \<lparr>success = False, message = Tpl PaymentChannelNotFound []\<rparr>)
       | _ \<Rightarrow>
           bind (console_error (ErrPaymentChannel channelId)) (\<lambda>_.
           returns \<lparr>success = False, message = Tpl PaymentChannelNotFound []\<rparr>))"

text \<open>
  \<^verbatim>\<open>processVerificationAction\<close>, branch by branch as the source has them: the action
  first, then the type of the context. No branch reads the status of the order.
\<close>

definition approve_site :: "env \<Rightarrow> string \<Rightarrow> string \<Rightarrow> result io" where
  "approve_site e oid uid =
     bind (getOrderById oid uid) (\<lambda>targetOrder.
     bind (updateOrderStatus oid ''approved'' no_extraData) (\<lambda>_.
     case targetOrder of
       None \<Rightarrow> throw (TypeError ''Cannot read properties of null (reading productName)'')
     | Some t \<Rightarrow>
         (case productName t of
            None \<Rightarrow> throw (TypeError ''Cannot read properties of null (reading slice)'')
          | Some pn \<Rightarrow>
              let channelName = ''chat-'' @ take 10 pn @ ''-'' @ drop (length uid - 4) uid in
              bind (\<lambda>w. guild_channels_create e channelName
                      (''Chat do Pedido do Site | OrderID: '' @ oid @ '' | UserID: '' @ uid)
                      [uid, ADMIN_ROLE_ID w] w) (\<lambda>ticketChannel.
              bind (updateOrderStatus oid ''approved''
                      \<lparr>ex_receiptUrl = None, ex_ticketChannelId = Some ticketChannel\<rparr>) (\<lambda>_.
              bind (sendDeliveryNotification e (SiteCtx oid uid None (Some pn))) (\<lambda>_.
              bind (logAuditEvent (Tpl AuditSiteApproved [oid, uid])) (\<lambda>_.
              bind (channel_send ticketChannel (Tpl PostChatWelcome [uid, pn])) (\<lambda>_.
              returns \<lparr>success = True, message = Tpl SiteOrderApproved [oid, channelName]\<rparr>))))))))"

definition reject_ticket :: "string \<Rightarrow> result io" where
  "reject_ticket channelId =
     bind (catch_null (guild_channels_fetch (Some channelId))) (\<lambda>paymentChannel.
     bind (case paymentChannel of
             None \<Rightarrow> returns ()
           | Some (OneChannel cid ch) \<Rightarrow> channel_send cid (Tpl PostProofRejected [])
           | Some AllChannels \<Rightarrow> throw (TypeError ''paymentChannel.send is not a function'')) (\<lambda>_.
     bind (logAuditEvent (Tpl AuditPaymentRejected
             [or_default (fetched_name paymentChannel) channelId])) (\<lambda>_.
     returns \<lparr>success = True,
              message = Tpl PaymentRejected [or_default (fetched_name paymentChannel) ''desconhecido'']\<rparr>)))"

definition reject_site :: "string \<Rightarrow> string \<Rightarrow> result io" where
  "reject_site oid uid =
     bind (updateOrderStatus oid ''declined'' no_extraData) (\<lambda>_.
     bind (logAuditEvent (Tpl AuditSiteRejected [oid, uid])) (\<lambda>_.
     returns \<lparr>success = True, message = Tpl SiteOrderRejected [oid]\<rparr>))"

definition deliver_ticket :: "string \<Rightarrow> string \<Rightarrow> string option \<Rightarrow> result io" where
  "deliver_ticket channelId uid pn =
     bind (catch_null (guild_channels_fetch (Some channelId))) (\<lambda>deliveryChannel.
     bind (case deliveryChannel of
             None \<Rightarrow> returns ()
           | Some (OneChannel cid ch) \<Rightarrow>
               bind (channel_send cid (Tpl PostDeliveryConfirmed [])) (\<lambda>_.
               setTimeout (DeleteChannel cid) 10000)
           | Some AllChannels \<Rightarrow> throw (TypeError ''deliveryChannel.send is not a function'')) (\<lambda>_.
     bind (client_users_fetch uid) (\<lambda>user.
     bind (try_catch (user_send uid (Tpl NoticePurchaseCompleted [interpolated ''undefined'' pn]))
             (\<lambda>err. console_error (ErrDirectMessage err))) (\<lambda>_.
     bind (logAuditEvent (Tpl AuditDeliveryConfirmed [tag user, interpolated ''undefined'' pn])) (\<lambda>_.
     returns \<lparr>success = True,
              message = Tpl TicketDelivered [or_default (fetched_name deliveryChannel) ''desconhecido'']\<rparr>)))))"

definition deliver_site :: "env \<Rightarrow> string \<Rightarrow> string \<Rightarrow> result io" where
  "deliver_site e oid uid =
     bind (getOrderById oid uid) (\<lambda>targetOrder.
     case targetOrder of
       None \<Rightarrow> returns \<lparr>success = False, message = Tpl SiteOrderNotFound [oid]\<rparr>
     | Some t \<Rightarrow>
         bind (updateOrderStatus oid ''entregue'' no_extraData) (\<lambda>_.
         let systemMessage =
               \<lparr>author = System, content = Tpl DeliveredSystemNote [], timestamp = now_iso e\<rparr> in
         bind (addMessageToOrder oid systemMessage) (\<lambda>_.
         bind (catch_null (client_users_fetch uid)) (\<lambda>user.
         bind (case user of
                 None \<Rightarrow> returns ()
               | Some u \<Rightarrow>
                   try_catch
                     (user_send uid (Tpl NoticeOrderDelivered [interpolated ''null'' (productName t), oid]))
                     (\<lambda>err. console_error (ErrDirectMessage err))) (\<lambda>_.
         bind (io_to_emit oid systemMessage) (\<lambda>_.
         bind (logAuditEvent (Tpl AuditSiteDelivered [oid, or_default (map_option tag user) uid])) (\<lambda>_.
         bind (catch_null (guild_channels_fetch (ticketChannelId t))) (\<lambda>ticketChannel.
         bind (case ticketChannel of
                 None \<Rightarrow> returns ()
               | Some (OneChannel cid ch) \<Rightarrow> setTimeout (DeleteChannel cid) 10000
               | Some AllChannels \<Rightarrow> setTimeout DeleteFromFetchedCollection 10000) (\<lambda>_.
         returns \<lparr>success = True, message = Tpl SiteOrderDelivered [oid]\<rparr>)))))))))"

definition processVerificationAction :: "env \<Rightarrow> string option \<Rightarrow> token_context \<Rightarrow> result io" where
  "processVerificationAction e act_name ctx =
     bind client_guilds_fetch (\<lambda>guild.
       if act_name = Some ''approve'' then
         (case ctx of
            TicketCtx channelId uid pid pn \<Rightarrow>
              bind (\<lambda>w. client_users_fetch (OWNER_ID w) w) (\<lambda>owner.
              processPaymentConfirmation e channelId pid owner)
          | SiteCtx oid uid pid pn \<Rightarrow> approve_site e oid uid)
       else if act_name = Some ''reject'' then
         (case ctx of
            TicketCtx channelId uid pid pn \<Rightarrow> reject_ticket channelId
          | SiteCtx oid uid pid pn \<Rightarrow> reject_site oid uid)
       else if act_name = Some ''deliver'' then
         (case ctx of
            TicketCtx channelId uid pid pn \<Rightarrow> deliver_ticket channelId uid pn
          | SiteCtx oid uid pid pn \<Rightarrow> deliver_site e oid uid)
       else returns \<lparr>success = False, message = Tpl UnknownAction []\<rparr>)"

section \<open>server.js\<close>

datatype view =
    ActionResult result
  | MarkDelivery string details
  | VerifyReceipt string details
  | AwaitingPayment product orderData

datatype response = Redirect string | Send nat phrase | Page nat view

text \<open>
  \<^verbatim>\<open>GET /order/create/:productId\<close>. The route reads \<^verbatim>\<open>product.id\<close> and \<^verbatim>\<open>product.name\<close>;
  an identifier that no binding in scope declares throws a ReferenceError when it
  is read. The bindings of the route that hold a product row (with its id) are
  listed by \<open>product_bindings\<close>: \<^verbatim>\<open>productData\<close>, and no other, in the route or in
  the module.
\<close>

definition product_bindings :: "string \<Rightarrow> product \<Rightarrow> (string \<times> string \<times> product) list" where
  "product_bindings pid productData = [(''productData'', (pid, productData))]"

definition read_identifier :: "(string \<times> 'a) list \<Rightarrow> string \<Rightarrow> 'a io" where
  "read_identifier scope x =
     (case map_of scope x of None \<Rightarrow> throw (ReferenceError x) | Some v \<Rightarrow> returns v)"

definition order_create :: "env \<Rightarrow> string option \<Rightarrow> string \<Rightarrow> response io" where
  "order_create e discordUser pid =
     (case discordUser of
        None \<Rightarrow> returns (Redirect ''/login'')
      | Some uid \<Rightarrow>
          try_catch
            (bind (getProductById pid) (\<lambda>productData.
               case productData of
                 None \<Rightarrow> returns (Send 404 (Tpl ProductNotFound []))
               | Some pd \<Rightarrow>
                   let orderId = ''order-site-'' @ now_millis e in
                   bind (read_identifier (product_bindings pid pd) ''product'') (\<lambda>product.
                   let newOrder =
                         \<lparr>od_id = orderId, od_userId = uid, od_productId = fst product,
                          od_productName = name (snd product), od_status = ''analise'',
                          od_createdAt = now_iso e, od_messages = Some []\<rparr> in
                   bind (createOrder newOrder) (\<lambda>_.
                   returns (Page 200 (AwaitingPayment pd newOrder))))))
            (\<lambda>err.
               bind (console_error (ErrOrderCreate err)) (\<lambda>_.
               returns (Send 500 (Tpl OrderCreateFailed [])))))"

text \<open>\<^verbatim>\<open>GET /verify/:verificationId\<close>.\<close>

definition verify_get :: "string \<Rightarrow> response io" where
  "verify_get vid =
     (\<lambda>w. case verificationTokens w vid of
            None \<Rightarrow>
              (Inr (Page 404 (ActionResult
                 \<lparr>success = False, message = Tpl LinkInvalidOrExpired []\<rparr>)), w)
          | Some tokenData \<Rightarrow>
              if action tokenData = Some ''deliver''
              then (Inr (Page 200 (MarkDelivery vid (details tokenData))), w)
              else (Inr (Page 200 (VerifyReceipt vid (details tokenData))), w))"

text \<open>
  \<^verbatim>\<open>POST /verify/action/:verificationId\<close>. \<^verbatim>\<open>req.body\<close> is what a body parser left on
  the request: \<^verbatim>\<open>undefined\<close> when none ran (\<open>NoBody\<close>), else an object whose \<^verbatim>\<open>action\<close>
  may be missing. The handler runs without interruption up to its one \<^verbatim>\<open>await\<close>
  (\<open>post_lookup\<close>: the body is destructured and the token looked up, the map is not
  changed); it awaits \<^verbatim>\<open>processVerificationAction\<close>; when that has returned it
  deletes the token and renders the result (\<open>post_finish\<close>). When the awaited call
  throws, nothing after it runs.
\<close>

datatype request_body = NoBody | Body "string option"

datatype lookup = Denied | Proceed "string option" token_context

definition post_lookup :: "string \<Rightarrow> request_body \<Rightarrow> world \<Rightarrow> js_error + lookup" where
  "post_lookup vid body w =
     (case body of
        NoBody \<Rightarrow> Inl (TypeError ''Cannot destructure property action of req.body as it is undefined'')
      | Body body_action \<Rightarrow>
          (case verificationTokens w vid of
             None \<Rightarrow> Inr Denied
           | Some tokenData \<Rightarrow>
               Inr (Proceed (js_or (action tokenData) body_action) (tk_context tokenData))))"

definition access_denied :: response where
  "access_denied = Page 403 (ActionResult \<lparr>success = False, message = Tpl AccessDenied []\<rparr>)"

definition post_finish :: "string \<Rightarrow> result \<Rightarrow> response io" where
  "post_finish vid r =
     bind (modify (\<lambda>w. w\<lparr>verificationTokens := (verificationTokens w)(vid := None)\<rparr>)) (\<lambda>_.
     returns (Page 200 (ActionResult r)))"

definition post_continue :: "env \<Rightarrow> string \<Rightarrow> js_error + lookup \<Rightarrow> response io" where
  "post_continue e vid l =
     (case l of
        Inl err \<Rightarrow> throw err
      | Inr Denied \<Rightarrow> returns access_denied
      | Inr (Proceed finalAction ctx) \<Rightarrow>
          bind (processVerificationAction e finalAction ctx) (post_finish vid))"

definition verify_action_post :: "env \<Rightarrow> string \<Rightarrow> request_body \<Rightarrow> response io" where
  "verify_action_post e vid body = (\<lambda>w. post_continue e vid (post_lookup vid body w) w)"

text \<open>
  The route as \<^verbatim>\<open>server.js\<close> mounts it. The application uses \<^verbatim>\<open>express.static\<close> and
  \<^verbatim>\<open>session\<close> and no middleware that parses a request body, so on every request
  that reaches the handler \<^verbatim>\<open>req.body\<close> is \<^verbatim>\<open>undefined\<close>.
\<close>

definition req_body_as_mounted :: request_body where
  "req_body_as_mounted = NoBody"

definition route_verify_action :: "env \<Rightarrow> string \<Rightarrow> response io" where
  "route_verify_action e vid = verify_action_post e vid req_body_as_mounted"

text \<open>
  Two requests for the same link, the second arriving while the first awaits
  \<^verbatim>\<open>processVerificationAction\<close>: both have looked the token up before either
  goes on.
\<close>

definition two_posts_interleaved ::
  "env \<Rightarrow> env \<Rightarrow> string \<Rightarrow> request_body \<Rightarrow> request_body \<Rightarrow> world
     \<Rightarrow> ((js_error + response) \<times> (js_error + response)) \<times> world" where
  "two_posts_interleaved e1 e2 vid body1 body2 w =
     (let l1 = post_lookup vid body1 w;
          l2 = post_lookup vid body2 w;
          (r1, w1) = post_continue e1 vid l1 w;
          (r2, w2) = post_continue e2 vid l2 w1
      in ((r1, r2), w2))"

text \<open>
  The socket handler of \<^verbatim>\<open>chat_message_from_client\<close>, for the payload
  \<^verbatim>\<open>{orderId, userId, username, message}\<close> sent on the given socket.
\<close>

definition chat_message_from_client ::
  "env \<Rightarrow> string \<Rightarrow> string \<Rightarrow> string \<Rightarrow> string \<Rightarrow> string \<Rightarrow> unit io" where
  "chat_message_from_client e socket oid uid uname msg =
     bind (getOrderById oid uid) (\<lambda>row.
     let newMessage = \<lparr>author = User, content = Plain msg, timestamp = now_iso e\<rparr> in
     bind (addMessageToOrder oid newMessage) (\<lambda>_.
     bind (socket_to_emit socket oid newMessage) (\<lambda>_.
     case row of
       None \<Rightarrow> throw (TypeError ''Cannot read properties of null (reading ticketChannelId)'')
     | Some r \<Rightarrow>
         if truthy (ticketChannelId r)
         then
           try_catch
             (bind (client_channels_fetch (the (ticketChannelId r))) (\<lambda>ticketChannel.
              channel_send (the (ticketChannelId r)) (Tpl PostSiteRelay [uname, msg])))
             (\<lambda>err. console_error (ErrRelay (the (ticketChannelId r)) err))
         else returns ())))"

section \<open>Example states\<close>

definition world0 :: world where
  "world0 = \<lparr>products = Map.empty, accounts = {}, orders = Map.empty, audit_logs = [],
     fixed_panel = None, verificationTokens = Map.empty, guild_reachable = True,
     channels = Map.empty, users = Map.empty, OWNER_ID = ''owner'', ADMIN_ROLE_ID = ''admins'',
     SITE_URL = ''https://shop.example'', clock = 0, timers = [], emits = [],
     direct_messages = [], panel_edits = [], console = []\<rparr>"

definition key :: product where
  "key = \<lparr>name = ''Chave'', price = 1550, description = None, emoji = None, stock = 3\<rparr>"

definition shop :: world where
  "shop = world0\<lparr>accounts := {''alice''}, products :=
     [''CH1'' \<mapsto> key, ''CH2'' \<mapsto> key\<lparr>stock := 0\<rparr>, ''CH3'' \<mapsto> key\<lparr>stock := - 1\<rparr>]\<rparr>"

text \<open>An order as \<^verbatim>\<open>migrate.js\<close> inserts it when the old record had no messages.\<close>

definition migrated_order :: order where
  "migrated_order = \<lparr>userId = Some ''alice'', productId = Some ''CH1'', productName = Some ''Chave'',
     status = Some ''approved'', createdAt = Some ''2024-01-01T00:00:00.000Z'', receiptUrl = None,
     ticketChannelId = None, messages = None\<rparr>"

definition hello :: message where
  "hello = \<lparr>author = User, content = Plain ''oi'', timestamp = ''2024-01-02T00:00:00.000Z''\<rparr>"

text \<open>An approved site order with its chat channel, and a link to mark it delivered.\<close>

definition order1 :: order where
  "order1 = \<lparr>userId = Some ''alice'', productId = Some ''CH1'', productName = Some ''Chave'',
     status = Some ''approved'', createdAt = Some ''2024-01-01T00:00:00.000Z'',
     receiptUrl = Some ''https://img.example/r.png'', ticketChannelId = Some ''chan1'',
     messages = Some []\<rparr>"

definition chat_channel :: channel where
  "chat_channel = \<lparr>ch_name = ''chat-Chave-lice'',
     ch_topic = Some ''Chat do Pedido do Site | OrderID: O1 | UserID: alice'',
     ch_text_based = True, ch_message_ids = [], ch_posts = [], ch_viewers = [''alice'', ''admins'']\<rparr>"

definition alice :: discord_user where
  "alice = \<lparr>tag = ''alice#0001'', username = ''alice'', accepts_dm = True\<rparr>"

definition owner :: discord_user where
  "owner = \<lparr>tag = ''dono#0001'', username = ''dono'', accepts_dm = True\<rparr>"

definition deliver_token :: token where
  "deliver_token = \<lparr>action = Some ''deliver'',
     tk_context = SiteCtx ''O1'' ''alice'' None (Some ''Chave''),
     details = DeliveryDetails (Some ''Chave'')\<rparr>"

definition delivery_world :: world where
  "delivery_world = world0\<lparr>orders := [''O1'' \<mapsto> order1],
     channels := [''chan1'' \<mapsto> chat_channel],
     users := [''alice'' \<mapsto> alice, ''owner'' \<mapsto> owner],
     verificationTokens := [''t1'' \<mapsto> deliver_token]\<rparr>"

text \<open>The same order after delivery, and with its channel deleted on the platform.\<close>

definition delivered_world :: world where
  "delivered_world = delivery_world\<lparr>orders := [''O1'' \<mapsto> order1\<lparr>status := Some ''entregue''\<rparr>]\<rparr>"

definition orphan_world :: world where
  "orphan_world = delivery_world\<lparr>channels := Map.empty\<rparr>"

text \<open>A site order whose proof has just been uploaded.\<close>

definition pending_world :: world where
  "pending_world = world0\<lparr>orders :=
       [''O1'' \<mapsto> order1\<lparr>status := Some ''pending_approval'', ticketChannelId := None\<rparr>],
     users := [''alice'' \<mapsto> alice, ''owner'' \<mapsto> owner]\<rparr>"

definition proof_details :: details where
  "proof_details = ProofDetails [(''title'', ''Verificacao de Comprovante do Site''),
     (''userTag'', ''alice''), (''productName'', ''Chave'')]"

definition proof_context :: token_context where
  "proof_context = SiteCtx ''O1'' ''alice'' (Some ''CH1'') None"

definition env1 :: env where
  "env1 = \<lparr>random_hex = ''aa01'', now_iso = ''2024-01-03T10:00:00.000Z'',
            now_millis = ''1704276000000'', new_channel_id = Some ''chan2''\<rparr>"

definition env2 :: env where
  "env2 = \<lparr>random_hex = ''aa02'', now_iso = ''2024-01-03T10:00:01.000Z'',
            now_millis = ''1704276001000'', new_channel_id = Some ''chan3''\<rparr>"

definition system_note :: "string \<Rightarrow> message" where
  "system_note t = \<lparr>author = System, content = Tpl DeliveredSystemNote [], timestamp = t\<rparr>"

text \<open>An order that came through \<^verbatim>\<open>migrate.js\<close> without messages, with its chat channel.\<close>

definition migrated_world :: world where
  "migrated_world = world0\<lparr>orders := [''O7'' \<mapsto> migrated_order\<lparr>ticketChannelId := Some ''chan1''\<rparr>],
     channels := [''chan1'' \<mapsto> chat_channel],
     users := [''alice'' \<mapsto> alice, ''owner'' \<mapsto> owner]\<rparr>"

definition migrated_orphan_world :: world where
  "migrated_orphan_world = migrated_world\<lparr>channels := Map.empty\<rparr>"


section \<open>Properties of db.js\<close>

lemmas io_defs = returns_def throw_def bind_def try_catch_def modify_def catch_null_def stored_def

lemmas platform_defs = client_guilds_fetch_def client_channels_fetch_def guild_channels_fetch_def
  channel_send_def channel_delete_def guild_channels_create_def client_users_fetch_def user_send_def
  setTimeout_def io_to_emit_def socket_to_emit_def console_error_def fetched_name_def or_default_def

lemmas db_defs = getOrderById_def updateOrderStatus_def addMessageToOrder_def addAuditLog_def
  update_where_id_def set_clause_def jsonb_concat_def no_extraData_def getProductById_def
  jsonb_accepts_def text_ok_def text_value_def varchar_def

lemmas example_defs = world0_def shop_def key_def order1_def chat_channel_def alice_def owner_def
  deliver_token_def delivery_world_def delivered_world_def orphan_world_def pending_world_def
  proof_context_def env1_def env2_def system_note_def migrated_order_def migrated_world_def
  migrated_orphan_world_def

lemma update_where_id_other: "k' \<noteq> k \<Longrightarrow> update_where_id tbl k c f k' = tbl k'"
  by (simp add: update_where_id_def split: option.splits)

lemma update_where_id_dom: "dom (update_where_id tbl k c f) = dom tbl"
  by (auto simp: update_where_id_def split: option.splits if_splits)

text \<open>On a transcript that is a list, a message that \<^verbatim>\<open>jsonb\<close> accepts becomes its last entry.\<close>

lemma addMessageToOrder_appends:
  assumes "orders w oid = Some r" and "messages r = Some ms" and "jsonb_accepts m"
  shows "addMessageToOrder oid m w =
           (Inr (), w\<lparr>orders := (orders w)(oid \<mapsto> r\<lparr>messages := Some (ms @ [m])\<rparr>)\<rparr>)"
  using assms
  by (simp add: addMessageToOrder_def modify_def update_where_id_def jsonb_concat_def)

text \<open>
  C8. \<^verbatim>\<open>decreaseProductStock\<close> takes exactly one from the stock of the product when
  the stock is positive and changes nothing otherwise: a stock of 0 stays 0, the
  stock -1 of an unlimited product stays -1. No other product and nothing else in
  the state changes, and the call does not throw.
\<close>

theorem decreaseProductStock_guarded:
  assumes "products w pid = Some p" and "decreaseProductStock pid w = (res, w')"
  shows "res = Inr ()
       \<and> products w' pid = Some (p\<lparr>stock := (if 0 < stock p then stock p - 1 else stock p)\<rparr>)
       \<and> (stock p = 0 \<longrightarrow> products w' pid = Some p)
       \<and> (stock p = - 1 \<longrightarrow> products w' pid = Some p)
       \<and> (\<forall>q. q \<noteq> pid \<longrightarrow> products w' q = products w q)
       \<and> w' = w\<lparr>products := products w'\<rparr>"
  using assms
  by (auto simp: decreaseProductStock_def modify_def update_where_id_def)

theorem decreaseProductStock_guarded_witness:
  "map_option stock (products (snd (decreaseProductStock ''CH1'' shop)) ''CH1'') = Some 2
 \<and> map_option stock (products (snd (decreaseProductStock ''CH2'' shop)) ''CH2'') = Some 0
 \<and> map_option stock (products (snd (decreaseProductStock ''CH3'' shop)) ''CH3'') = Some (- 1)
 \<and> fst (decreaseProductStock ''CH1'' shop) = Inr ()"
proof -
  have p1: "products shop ''CH1'' = Some key"
    and p2: "products shop ''CH2'' = Some (key\<lparr>stock := 0\<rparr>)"
    and p3: "products shop ''CH3'' = Some (key\<lparr>stock := - 1\<rparr>)"
    by (simp_all add: shop_def)
  note g1 = decreaseProductStock_guarded [OF p1 surjective_pairing]
  note g2 = decreaseProductStock_guarded [OF p2 surjective_pairing]
  note g3 = decreaseProductStock_guarded [OF p3 surjective_pairing]
  show ?thesis using g1 g2 g3 by (simp add: key_def)
qed

text \<open>
  C9, at the input where the code leaves the claim: an order whose \<^verbatim>\<open>messages\<close>
  column is NULL. \<^verbatim>\<open>addMessageToOrder\<close> returns normally and the column is still
  NULL, so the message is in no transcript.
\<close>

theorem addMessageToOrder_null_transcript:
  "addMessageToOrder ''O7'' hello (world0\<lparr>orders := [''O7'' \<mapsto> migrated_order]\<rparr>)
     = (Inr (), world0\<lparr>orders := [''O7'' \<mapsto> migrated_order]\<rparr>)"
  by (simp add: addMessageToOrder_def modify_def update_where_id_def jsonb_concat_def
        migrated_order_def hello_def jsonb_accepts_def text_ok_def)




section \<open>Properties of server.js and index.js\<close>

text \<open>
  C1, at the input where the code leaves the claim: any POST of a verification
  link, the token in the map or not. The body of the request was parsed by
  nothing, so the handler throws when it destructures \<^verbatim>\<open>req.body\<close>, before it looks
  the token up: the token is neither resolved nor deleted, no transition is
  run, nothing is rendered, and the state is as before. For the link of the
  delivery of order O1 the token is still in the map afterwards.
\<close>

theorem route_verify_action_throws:
  "route_verify_action e vid w =
     (Inl (TypeError ''Cannot destructure property action of req.body as it is undefined''), w)
   \<and> verificationTokens delivery_world ''t1'' = Some deliver_token
   \<and> verificationTokens (snd (route_verify_action env1 ''t1'' delivery_world)) ''t1''
       = Some deliver_token"
  by (simp add: route_verify_action_def req_body_as_mounted_def verify_action_post_def
        post_lookup_def post_continue_def throw_def delivery_world_def)

text \<open>
  Had the request a parsed body, the handler would go on: it runs the transition
  with the token still in the map and deletes the token when the transition has
  returned, so that a later request for the link is denied.
\<close>

lemma parsed_post_then_denied:
  assumes "verificationTokens w vid = Some tk"
    and "processVerificationAction e (js_or (action tk) a) (tk_context tk) w = (Inr r, w1)"
  shows "verify_action_post e vid (Body a) w =
           (Inr (Page 200 (ActionResult r)),
            w1\<lparr>verificationTokens := (verificationTokens w1)(vid := None)\<rparr>)
       \<and> verify_action_post e' vid (Body a')
             (w1\<lparr>verificationTokens := (verificationTokens w1)(vid := None)\<rparr>) =
           (Inr access_denied, w1\<lparr>verificationTokens := (verificationTokens w1)(vid := None)\<rparr>)"
  using assms
  by (simp add: verify_action_post_def post_lookup_def post_continue_def post_finish_def io_defs)

text \<open>
  And of two such requests, the second arriving while the first awaits, both
  would find the token and both would run the transition.
\<close>

lemma parsed_posts_both_deliver:
  "fst (two_posts_interleaved env1 env2 ''t1'' (Body None) (Body None) delivery_world) =
     (Inr (Page 200 (ActionResult \<lparr>success = True, message = Tpl SiteOrderDelivered [''O1'']\<rparr>)),
      Inr (Page 200 (ActionResult \<lparr>success = True, message = Tpl SiteOrderDelivered [''O1'']\<rparr>)))
   \<and> map_option messages
        (orders (snd (two_posts_interleaved env1 env2 ''t1'' (Body None) (Body None) delivery_world)) ''O1'')
       = Some (Some [system_note ''2024-01-03T10:00:00.000Z'', system_note ''2024-01-03T10:00:01.000Z''])
   \<and> timers (snd (two_posts_interleaved env1 env2 ''t1'' (Body None) (Body None) delivery_world))
       = [\<lparr>due = 10000, act = DeleteChannel ''chan1''\<rparr>, \<lparr>due = 10000, act = DeleteChannel ''chan1''\<rparr>]"
  by (simp add: two_posts_interleaved_def verify_action_post_def post_lookup_def post_continue_def
        post_finish_def example_defs js_or_def
        processVerificationAction_def deliver_site_def logAuditEvent_def truthy_def
        db_defs platform_defs io_defs Let_def)

text \<open>
  C2, as the code has it. \<^verbatim>\<open>processVerificationAction\<close> does not read the status of
  the order: for a site order found for the user, \<^verbatim>\<open>approve\<close> writes \<^verbatim>\<open>approved\<close> and
  binds the new channel, \<^verbatim>\<open>reject\<close> writes \<^verbatim>\<open>declined\<close> and \<^verbatim>\<open>deliver\<close> writes \<^verbatim>\<open>entregue\<close>,
  each returning success, whatever the status was before (\<open>status r\<close> is
  arbitrary: \<^verbatim>\<open>entregue\<close> and \<^verbatim>\<open>declined\<close> included). The success of \<^verbatim>\<open>approve\<close> and
  the binding are for a channel id that the column \<^verbatim>\<open>"ticketChannelId" VARCHAR(255)\<close>
  takes as it is; the status is \<^verbatim>\<open>approved\<close> after \<^verbatim>\<open>approve\<close> for every channel id.
\<close>

theorem site_transitions_ignore_status:
  assumes "guild_reachable w" and "orders w oid = Some r" and "userId r = Some uid"
    and "productName r = Some pname" and "new_channel_id e = Some cid" and "cid \<noteq> []"
  shows "(text_ok cid \<and> length cid \<le> 255 \<longrightarrow>
           (\<exists>w' chname. processVerificationAction e (Some ''approve'') (SiteCtx oid uid pid pn) w =
             (Inr \<lparr>success = True, message = Tpl SiteOrderApproved [oid, chname]\<rparr>, w')
           \<and> orders w' = (orders w)(oid \<mapsto> r\<lparr>status := Some ''approved'', ticketChannelId := Some cid\<rparr>)
           \<and> channels w' cid \<noteq> None))
       \<and> map_option status
            (orders (snd (processVerificationAction e (Some ''approve'') (SiteCtx oid uid pid pn) w)) oid)
           = Some (Some ''approved'')
       \<and> (\<exists>w'. processVerificationAction e (Some ''reject'') (SiteCtx oid uid pid pn) w =
             (Inr \<lparr>success = True, message = Tpl SiteOrderRejected [oid]\<rparr>, w')
           \<and> orders w' = (orders w)(oid \<mapsto> r\<lparr>status := Some ''declined''\<rparr>))
       \<and> (\<exists>w'. processVerificationAction e (Some ''deliver'') (SiteCtx oid uid pid pn) w =
             (Inr \<lparr>success = True, message = Tpl SiteOrderDelivered [oid]\<rparr>, w')
           \<and> map_option status (orders w' oid) = Some (Some ''entregue''))"
proof (intro conjI impI)
  assume "text_ok cid \<and> length cid \<le> 255"
  then show "\<exists>w' chname. processVerificationAction e (Some ''approve'') (SiteCtx oid uid pid pn) w =
             (Inr \<lparr>success = True, message = Tpl SiteOrderApproved [oid, chname]\<rparr>, w')
           \<and> orders w' = (orders w)(oid \<mapsto> r\<lparr>status := Some ''approved'', ticketChannelId := Some cid\<rparr>)
           \<and> channels w' cid \<noteq> None"
    using assms
    by (auto simp: processVerificationAction_def approve_site_def sendDeliveryNotification_def
          logAuditEvent_def truthy_def db_defs platform_defs io_defs Let_def
          split: option.splits)
next
  show "map_option status
          (orders (snd (processVerificationAction e (Some ''approve'') (SiteCtx oid uid pid pn) w)) oid)
         = Some (Some ''approved'')"
    using assms
    by (auto simp: processVerificationAction_def approve_site_def sendDeliveryNotification_def
          logAuditEvent_def truthy_def db_defs platform_defs io_defs Let_def
          split: option.splits)
  show "\<exists>w'. processVerificationAction e (Some ''reject'') (SiteCtx oid uid pid pn) w =
             (Inr \<lparr>success = True, message = Tpl SiteOrderRejected [oid]\<rparr>, w')
           \<and> orders w' = (orders w)(oid \<mapsto> r\<lparr>status := Some ''declined''\<rparr>)"
    using assms
    by (auto simp: processVerificationAction_def reject_site_def
          logAuditEvent_def truthy_def db_defs platform_defs io_defs Let_def)
  show "\<exists>w'. processVerificationAction e (Some ''deliver'') (SiteCtx oid uid pid pn) w =
             (Inr \<lparr>success = True, message = Tpl SiteOrderDelivered [oid]\<rparr>, w')
           \<and> map_option status (orders w' oid) = Some (Some ''entregue'')"
    using assms
    by (auto simp: processVerificationAction_def deliver_site_def logAuditEvent_def truthy_def
        db_defs platform_defs io_defs Let_def split: option.splits fetched.splits)
qed

theorem site_transitions_ignore_status_witness:
  "fst (processVerificationAction env1 (Some ''reject'') (SiteCtx ''O1'' ''alice'' None None) delivered_world)
     = Inr \<lparr>success = True, message = Tpl SiteOrderRejected [''O1'']\<rparr>
   \<and> orders (snd (processVerificationAction env1 (Some ''reject'') (SiteCtx ''O1'' ''alice'' None None)
         delivered_world)) ''O1''
     = Some (order1\<lparr>status := Some ''declined''\<rparr>)
   \<and> map_option status
        (orders (snd (processVerificationAction env1 (Some ''approve'') (SiteCtx ''O1'' ''alice'' None None)
           delivered_world)) ''O1'')
     = Some (Some ''approved'')"
proof -
  have g: "guild_reachable delivered_world"
    and o: "orders delivered_world ''O1'' = Some (order1\<lparr>status := Some ''entregue''\<rparr>)"
    and u: "userId (order1\<lparr>status := Some ''entregue''\<rparr>) = Some ''alice''"
    and n: "productName (order1\<lparr>status := Some ''entregue''\<rparr>) = Some ''Chave''"
    and c: "new_channel_id env1 = Some ''chan2''" "''chan2'' \<noteq> []"
    by (simp_all add: example_defs)
  note t = site_transitions_ignore_status [OF g o u n c, of None None]
  from t obtain w' where
    "processVerificationAction env1 (Some ''reject'') (SiteCtx ''O1'' ''alice'' None None) delivered_world =
       (Inr \<lparr>success = True, message = Tpl SiteOrderRejected [''O1'']\<rparr>, w')"
    and "orders w' = (orders delivered_world)(''O1'' \<mapsto> order1\<lparr>status := Some ''entregue'', status := Some ''declined''\<rparr>)"
    by blast
  moreover from t have
    "map_option status
       (orders (snd (processVerificationAction env1 (Some ''approve'') (SiteCtx ''O1'' ''alice'' None None)
          delivered_world)) ''O1'')
     = Some (Some ''approved'')"
    by blast
  ultimately show ?thesis by simp
qed

text \<open>
  C2 as stated fails: \<^verbatim>\<open>approve\<close> on the order that is already \<^verbatim>\<open>entregue\<close> returns
  success, sets its status back to \<^verbatim>\<open>approved\<close> and binds a second channel.
\<close>

theorem approve_after_delivery:
  "fst (processVerificationAction env1 (Some ''approve'') (SiteCtx ''O1'' ''alice'' None None) delivered_world)
     = Inr \<lparr>success = True, message = Tpl SiteOrderApproved [''O1'', ''chat-Chave-lice'']\<rparr>
   \<and> orders (snd (processVerificationAction env1 (Some ''approve'') (SiteCtx ''O1'' ''alice'' None None)
         delivered_world)) ''O1''
     = Some (order1\<lparr>status := Some ''approved'', ticketChannelId := Some ''chan2''\<rparr>)"
  by (simp add: example_defs processVerificationAction_def approve_site_def
        sendDeliveryNotification_def logAuditEvent_def truthy_def
        db_defs platform_defs io_defs Let_def)

text \<open>
  C3, as the code has it. A stored token has the fields its issuer gave it (the
  details and the context for a proof link; the action \<^verbatim>\<open>deliver\<close>, the context and
  the product name for a delivery link) and no expiry time, and the lookups of
  the two routes do not read the clock. Expiry is the timer alone: issuing
  schedules the deletion 3 600 000 ms later; before that the timer cannot run,
  from then on it can, and once it has run the token is not found: GET renders
  the 404 page and the handler of POST, given a parsed body, answers access
  denied. The POST route as mounted throws on the unparsed body in every state.
\<close>

theorem token_expiry_is_the_timer:
  "verificationTokens (snd (sendProofForVerification e d ctx w)) (random_hex e)
       = Some \<lparr>action = None, tk_context = ctx, details = d\<rparr>
   \<and> timers (snd (sendProofForVerification e d ctx w))
       = timers w @ [\<lparr>due = clock w + 3600000, act = DeleteToken (random_hex e)\<rparr>]
   \<and> (ms < 3600000 \<longrightarrow>
        fire (length (timers w)) (tick ms (snd (sendProofForVerification e d ctx w))) = None)
   \<and> (3600000 \<le> ms \<longrightarrow>
        (\<exists>w'. fire (length (timers w)) (tick ms (snd (sendProofForVerification e d ctx w))) = Some w'
           \<and> verificationTokens w' (random_hex e) = None
           \<and> fst (verify_get (random_hex e) w')
               = Inr (Page 404 (ActionResult \<lparr>success = False, message = Tpl LinkInvalidOrExpired []\<rparr>))
           \<and> fst (verify_action_post e' (random_hex e) (Body a) w') = Inr access_denied))
   \<and> verificationTokens (snd (sendDeliveryNotification e ctx w)) (random_hex e)
       = Some \<lparr>action = Some ''deliver'', tk_context = ctx,
               details = DeliveryDetails (context_productName ctx)\<rparr>
   \<and> timers (snd (sendDeliveryNotification e ctx w))
       = timers w @ [\<lparr>due = clock w + 3600000, act = DeleteToken (random_hex e)\<rparr>]
   \<and> (ms < 3600000 \<longrightarrow>
        fire (length (timers w)) (tick ms (snd (sendDeliveryNotification e ctx w))) = None)
   \<and> (3600000 \<le> ms \<longrightarrow>
        (\<exists>w'. fire (length (timers w)) (tick ms (snd (sendDeliveryNotification e ctx w))) = Some w'
           \<and> verificationTokens w' (random_hex e) = None
           \<and> fst (verify_get (random_hex e) w')
               = Inr (Page 404 (ActionResult \<lparr>success = False, message = Tpl LinkInvalidOrExpired []\<rparr>))
           \<and> fst (verify_action_post e' (random_hex e) (Body a) w') = Inr access_denied))
   \<and> fst (verify_get vid (tick ms w)) = fst (verify_get vid w)
   \<and> post_lookup vid body (tick ms w) = post_lookup vid body w
   \<and> route_verify_action e' vid w =
       (Inl (TypeError ''Cannot destructure property action of req.body as it is undefined''), w)"
proof (intro conjI)
  show "verificationTokens (snd (sendProofForVerification e d ctx w)) (random_hex e)
       = Some \<lparr>action = None, tk_context = ctx, details = d\<rparr>"
    and "timers (snd (sendProofForVerification e d ctx w))
       = timers w @ [\<lparr>due = clock w + 3600000, act = DeleteToken (random_hex e)\<rparr>]"
    and "ms < 3600000 \<longrightarrow>
        fire (length (timers w)) (tick ms (snd (sendProofForVerification e d ctx w))) = None"
    and "3600000 \<le> ms \<longrightarrow>
        (\<exists>w'. fire (length (timers w)) (tick ms (snd (sendProofForVerification e d ctx w))) = Some w'
           \<and> verificationTokens w' (random_hex e) = None
           \<and> fst (verify_get (random_hex e) w')
               = Inr (Page 404 (ActionResult \<lparr>success = False, message = Tpl LinkInvalidOrExpired []\<rparr>))
           \<and> fst (verify_action_post e' (random_hex e) (Body a) w') = Inr access_denied)"
    by (auto simp: sendProofForVerification_def logAuditEvent_def fire_def nth_append
        verify_get_def post_lookup_def verify_action_post_def post_continue_def tick_def
        db_defs platform_defs io_defs split: option.splits)
  show "verificationTokens (snd (sendDeliveryNotification e ctx w)) (random_hex e)
       = Some \<lparr>action = Some ''deliver'', tk_context = ctx,
               details = DeliveryDetails (context_productName ctx)\<rparr>"
    and "timers (snd (sendDeliveryNotification e ctx w))
       = timers w @ [\<lparr>due = clock w + 3600000, act = DeleteToken (random_hex e)\<rparr>]"
    and "ms < 3600000 \<longrightarrow>
        fire (length (timers w)) (tick ms (snd (sendDeliveryNotification e ctx w))) = None"
    and "3600000 \<le> ms \<longrightarrow>
        (\<exists>w'. fire (length (timers w)) (tick ms (snd (sendDeliveryNotification e ctx w))) = Some w'
           \<and> verificationTokens w' (random_hex e) = None
           \<and> fst (verify_get (random_hex e) w')
               = Inr (Page 404 (ActionResult \<lparr>success = False, message = Tpl LinkInvalidOrExpired []\<rparr>))
           \<and> fst (verify_action_post e' (random_hex e) (Body a) w') = Inr access_denied)"
    by (auto simp: sendDeliveryNotification_def logAuditEvent_def fire_def nth_append
        verify_get_def post_lookup_def verify_action_post_def post_continue_def tick_def
        db_defs platform_defs io_defs split: option.splits)
  show "fst (verify_get vid (tick ms w)) = fst (verify_get vid w)"
    by (simp add: verify_get_def tick_def split: option.splits)
  show "post_lookup vid body (tick ms w) = post_lookup vid body w"
    by (simp add: post_lookup_def tick_def split: request_body.splits)
  show "route_verify_action e' vid w =
       (Inl (TypeError ''Cannot destructure property action of req.body as it is undefined''), w)"
    by (simp add: route_verify_action_def req_body_as_mounted_def verify_action_post_def
        post_lookup_def post_continue_def throw_def)
qed

theorem token_expiry_is_the_timer_witness:
  "fire 0 (tick 3599999 (snd (sendProofForVerification env1 proof_details proof_context pending_world))) = None
   \<and> fire 0 (tick 3600000 (snd (sendProofForVerification env1 proof_details proof_context pending_world))) \<noteq> None
   \<and> verificationTokens (the (fire 0 (tick 3600000
        (snd (sendProofForVerification env1 proof_details proof_context pending_world))))) ''aa01'' = None
   \<and> fire 0 (tick 3599999 (snd (sendDeliveryNotification env1 proof_context pending_world))) = None
   \<and> verificationTokens (the (fire 0 (tick 3600000
        (snd (sendDeliveryNotification env1 proof_context pending_world))))) ''aa01'' = None"
proof -
  have t: "length (timers pending_world) = 0" and r: "random_hex env1 = ''aa01''"
    by (simp_all add: example_defs)
  have early: "(3599999::nat) < 3600000" and late: "(3600000::nat) \<le> 3600000"
    by simp_all
  note at_early = token_expiry_is_the_timer [where e = env1 and d = proof_details
        and ctx = proof_context and w = pending_world and ms = 3599999 and vid = "''aa01''"
        and body = NoBody and e' = env1 and a = None]
  note at_late = token_expiry_is_the_timer [where e = env1 and d = proof_details
        and ctx = proof_context and w = pending_world and ms = 3600000 and vid = "''aa01''"
        and body = NoBody and e' = env1 and a = None]
  from at_early have a1:
    "fire 0 (tick 3599999 (snd (sendProofForVerification env1 proof_details proof_context pending_world))) = None"
    and a2: "fire 0 (tick 3599999 (snd (sendDeliveryNotification env1 proof_context pending_world))) = None"
    using early t by simp_all
  from at_late obtain w' where
    "fire 0 (tick 3600000 (snd (sendProofForVerification env1 proof_details proof_context pending_world))) = Some w'"
    and "verificationTokens w' ''aa01'' = None"
    using late t r by auto
  moreover from at_late obtain w'' where
    "fire 0 (tick 3600000 (snd (sendDeliveryNotification env1 proof_context pending_world))) = Some w''"
    and "verificationTokens w'' ''aa01'' = None"
    using late t r by auto
  ultimately show ?thesis using a1 a2 by simp
qed

text \<open>
  C3 as stated fails: one millisecond after the hour, with the timer still
  pending, GET resolves the token of the link and renders the review page.
\<close>

theorem expired_token_still_resolves:
  "timers (tick 3600001 (snd (sendProofForVerification env1 proof_details proof_context pending_world)))
      = [\<lparr>due = 3600000, act = DeleteToken ''aa01''\<rparr>]
   \<and> clock (tick 3600001 (snd (sendProofForVerification env1 proof_details proof_context pending_world)))
      = 3600001
   \<and> fst (verify_get ''aa01''
        (tick 3600001 (snd (sendProofForVerification env1 proof_details proof_context pending_world))))
      = Inr (Page 200 (VerifyReceipt ''aa01'' proof_details))"
  by (simp add: sendProofForVerification_def logAuditEvent_def
        verify_get_def tick_def example_defs truthy_def
        db_defs platform_defs io_defs)

text \<open>
  C4, at an input where the code leaves the claim: a message for the order of
  alice sent under the identity of mallory. The lookup finds no order for
  mallory, yet the message is appended to the transcript of the order and
  emitted to its room; only then the handler throws, reading a field of the
  missing row.
\<close>

theorem chat_message_from_stranger:
  "chat_message_from_client env1 ''sockM'' ''O1'' ''mallory'' ''Mallory'' ''spam'' delivery_world =
     (Inl (TypeError ''Cannot read properties of null (reading ticketChannelId)''),
      delivery_world\<lparr>
        orders := [''O1'' \<mapsto> order1\<lparr>messages := Some [\<lparr>author = User, content = Plain ''spam'',
                      timestamp = ''2024-01-03T10:00:00.000Z''\<rparr>]\<rparr>],
        emits := [\<lparr>room = ''O1'', except = Some ''sockM'',
                   payload = \<lparr>author = User, content = Plain ''spam'',
                      timestamp = ''2024-01-03T10:00:00.000Z''\<rparr>\<rparr>]\<rparr>)"
  by (simp add: chat_message_from_client_def example_defs db_defs platform_defs io_defs Let_def)

text \<open>The row fetched by the route is bound to \<^verbatim>\<open>productData\<close>, and reading that name succeeds.\<close>

lemma productData_is_bound:
  "read_identifier (product_bindings pid pd) ''productData'' w = (Inr (pid, pd), w)"
  by (simp add: read_identifier_def product_bindings_def returns_def)

text \<open>
  C5. For a logged-in user and a product that exists, the route to create an
  order throws a ReferenceError when it reads \<^verbatim>\<open>product\<close>, before \<^verbatim>\<open>createOrder\<close>: the
  answer is the 500 of the catch branch, the error is printed, and nothing else
  changes; no order is stored.
\<close>

theorem order_create_never_persists:
  assumes "products w pid = Some pd"
  shows "order_create e (Some uid) pid w =
           (Inr (Send 500 (Tpl OrderCreateFailed [])),
            w\<lparr>console := console w @ [ErrOrderCreate (ReferenceError ''product'')]\<rparr>)
       \<and> orders (snd (order_create e (Some uid) pid w)) = orders w"
  using assms
  by (simp add: order_create_def getProductById_def read_identifier_def product_bindings_def
        console_error_def io_defs)

theorem order_create_never_persists_witness:
  "fst (order_create env1 (Some ''alice'') ''CH1'' shop) = Inr (Send 500 (Tpl OrderCreateFailed []))
   \<and> orders (snd (order_create env1 (Some ''alice'') ''CH1'' shop)) = Map.empty"
proof -
  have p: "products shop ''CH1'' = Some key"
    by (simp add: shop_def)
  show ?thesis
    using order_create_never_persists [OF p, of env1 "''alice''"]
    by (simp add: shop_def world0_def)
qed

text \<open>
  C6, at an input where the code leaves the claim: \<^verbatim>\<open>deliver\<close> on the site order O7
  of alice, whose \<^verbatim>\<open>messages\<close> column is NULL and whose chat channel exists. The
  result is success, the status is \<^verbatim>\<open>entregue\<close>, the system message is emitted to
  the room and the deletion of the channel is pending; the transcript is still
  NULL, so no system message has been appended to it.
\<close>

theorem deliver_null_transcript:
  "fst (processVerificationAction env1 (Some ''deliver'') (SiteCtx ''O7'' ''alice'' None (Some ''Chave''))
          migrated_world)
     = Inr \<lparr>success = True, message = Tpl SiteOrderDelivered [''O7'']\<rparr>
   \<and> orders (snd (processVerificationAction env1 (Some ''deliver'')
         (SiteCtx ''O7'' ''alice'' None (Some ''Chave'')) migrated_world)) ''O7''
     = Some (migrated_order\<lparr>status := Some ''entregue'', ticketChannelId := Some ''chan1'',
                             messages := None\<rparr>)
   \<and> emits (snd (processVerificationAction env1 (Some ''deliver'')
         (SiteCtx ''O7'' ''alice'' None (Some ''Chave'')) migrated_world))
     = [\<lparr>room = ''O7'', except = None, payload = system_note ''2024-01-03T10:00:00.000Z''\<rparr>]
   \<and> timers (snd (processVerificationAction env1 (Some ''deliver'')
         (SiteCtx ''O7'' ''alice'' None (Some ''Chave'')) migrated_world))
     = [\<lparr>due = 10000, act = DeleteChannel ''chan1''\<rparr>]"
  by (simp add: example_defs processVerificationAction_def deliver_site_def logAuditEvent_def
        truthy_def db_defs platform_defs io_defs Let_def)

text \<open>
  On a transcript that is a list the same call appends the system message once,
  and running the pending timer deletes the channel.
\<close>

lemma deliver_site_effects:
  assumes "guild_reachable w" and "orders w oid = Some r" and "userId r = Some uid"
    and "messages r = Some ms" and "ticketChannelId r = Some cid" and "cid \<noteq> []"
  shows "\<exists>w'. processVerificationAction e (Some ''deliver'') (SiteCtx oid uid pid pn) w =
             (Inr \<lparr>success = True, message = Tpl SiteOrderDelivered [oid]\<rparr>, w')
       \<and> orders w' = (orders w)(oid \<mapsto> r\<lparr>status := Some ''entregue'',
            messages := Some (ms @ [system_note (now_iso e)])\<rparr>)
       \<and> emits w' = emits w @ [\<lparr>room = oid, except = None, payload = system_note (now_iso e)\<rparr>]
       \<and> direct_messages w' = direct_messages w @
            (case users w uid of
               None \<Rightarrow> []
             | Some u \<Rightarrow> if accepts_dm u
                 then [(uid, Tpl NoticeOrderDelivered [interpolated ''null'' (productName r), oid])]
                 else [])
       \<and> channels w' = channels w
       \<and> timers w' = timers w @
            (if channels w cid = None then []
             else [\<lparr>due = clock w + 10000, act = DeleteChannel cid\<rparr>])
       \<and> verificationTokens w' = verificationTokens w \<and> products w' = products w"
  using assms
  by (auto simp: processVerificationAction_def deliver_site_def logAuditEvent_def truthy_def
        system_note_def db_defs platform_defs io_defs Let_def split: option.splits)

lemma pending_deletion_deletes:
  assumes "timers w = ts @ [\<lparr>due = t, act = DeleteChannel cid\<rparr>]" and "t \<le> clock w"
  shows "\<exists>w'. fire (length ts) w = Some w' \<and> channels w' cid = None \<and> timers w' = ts"
  using assms
  by (auto simp: fire_def nth_append channel_delete_def split: option.splits)

text \<open>
  C7, at an input where the code leaves the claim: a web message of alice on her
  order O7, whose \<^verbatim>\<open>messages\<close> column is NULL and whose bound channel no longer
  exists. The relay error is caught and printed and the message is emitted to
  the room, but the transcript is still NULL: the append has stored nothing.
\<close>

theorem chat_message_null_transcript:
  "chat_message_from_client env1 ''sockA'' ''O7'' ''alice'' ''Alice'' ''oi'' migrated_orphan_world =
     (Inr (),
      migrated_orphan_world\<lparr>
        emits := [\<lparr>room = ''O7'', except = Some ''sockA'',
                   payload = \<lparr>author = User, content = Plain ''oi'',
                      timestamp = ''2024-01-03T10:00:00.000Z''\<rparr>\<rparr>],
        console := [ErrRelay ''chan1'' (DiscordAPIError 10003)]\<rparr>)
   \<and> map_option messages (orders migrated_orphan_world ''O7'') = Some None"
  by (simp add: chat_message_from_client_def example_defs db_defs platform_defs io_defs Let_def
        truthy_def)

text \<open>
  On a transcript that is a list, with a text that \<^verbatim>\<open>jsonb\<close> accepts, the message is
  stored and emitted whether or not the relay fails; a text that \<^verbatim>\<open>jsonb\<close> refuses
  is neither stored nor emitted, the handler throwing at the append.
\<close>

lemma chat_message_relay_failure:
  assumes "orders w oid = Some r" and "userId r = Some uid" and "messages r = Some ms"
    and "ticketChannelId r = Some cid" and "cid \<noteq> []" and "text_ok msg"
    and "channels w cid = None \<or> (\<exists>ch. channels w cid = Some ch \<and> \<not> ch_text_based ch)"
  shows "\<exists>err. chat_message_from_client e socket oid uid uname msg w =
           (Inr (),
            w\<lparr>orders := (orders w)(oid \<mapsto>
                 r\<lparr>messages := Some (ms @ [\<lparr>author = User, content = Plain msg, timestamp = now_iso e\<rparr>])\<rparr>),
              emits := emits w @ [\<lparr>room = oid, except = Some socket,
                 payload = \<lparr>author = User, content = Plain msg, timestamp = now_iso e\<rparr>\<rparr>],
              console := console w @ [ErrRelay cid err]\<rparr>)"
  using assms
  by (auto simp: chat_message_from_client_def getOrderById_def addMessageToOrder_def
        update_where_id_def jsonb_concat_def socket_to_emit_def truthy_def jsonb_accepts_def
        client_channels_fetch_def channel_send_def console_error_def io_defs Let_def)

lemma chat_message_refused_text:
  assumes "\<not> text_ok msg"
  shows "chat_message_from_client e socket oid uid uname msg w = (Inl (DatabaseError ''22P05''), w)"
  using assms
  by (simp add: chat_message_from_client_def getOrderById_def addMessageToOrder_def
        jsonb_accepts_def io_defs Let_def)

end
